theory Spec2Isabelle
  imports Complex_Main "HOL-Library.AList" "HOL-Library.Sublist"
begin

section \<open>JavaScript values used by the dashboard\<close>

text \<open>
  The endpoints receive JSON from two upstream APIs and hand it to a few JavaScript
  built-ins. A JSON value is modelled as the value \<open>response.json()\<close> resolves to.
  A number is the value of the double it is, as a rational. An object is the list of
  its own properties; the first binding of a name is the property's value.
\<close>

datatype json =
    JNull
  | JBool bool
  | JNum rat
  | JStr string
  | JArr "json list"
  | JObj "(string \<times> json) list"

text \<open>Exceptions that the code under study can meet.\<close>

datatype js_error = TypeError | RangeError | SyntaxError | NetworkError

text \<open>
  An ISO-8601 string as produced by \<open>Date.prototype.toISOString\<close> is determined by the
  time value (milliseconds since the epoch) it renders, and \<open>new Date(s)\<close> reads that time
  value back. The string is represented by the time value it denotes.
\<close>

datatype iso8601 = ISO int

fun time_of :: "iso8601 \<Rightarrow> int" where
  "time_of (ISO t) = t"

text \<open>
  \<open>xs[i]\<close>: reading outside the array gives \<open>undefined\<close> (\<open>None\<close>); nothing is raised
  until a property of that \<open>undefined\<close> is read.
\<close>

definition js_index :: "'a list \<Rightarrow> int \<Rightarrow> 'a option" where
  "js_index xs i = (if 0 \<le> i \<and> i < int (length xs) then Some (xs ! nat i) else None)"

text \<open>
  Arithmetic on doubles rounds. Numbers that are surely doubles: the integers of
  magnitude at most \<open>2^53\<close>, and the multiples of \<open>1/1024\<close> of magnitude at most \<open>2^43\<close>.
  An operation on two such numbers whose exact result is again such a number gives that
  result, unrounded; the model computes these cases and leaves every other one to the
  runtime.
\<close>

definition is_integer :: "rat \<Rightarrow> bool" where
  "is_integer q = (of_int \<lfloor>q\<rfloor> = q)"

definition exact_double :: "rat \<Rightarrow> bool" where
  "exact_double q =
     ((is_integer q \<and> \<bar>q\<bar> \<le> 9007199254740992) \<or>
      (is_integer (q * 1024) \<and> \<bar>q * 1024\<bar> \<le> 9007199254740992))"

section \<open>The upstream APIs and the JavaScript runtime\<close>

text \<open>
  What \<open>fetch(url)\<close> does: it rejects (\<open>Failed\<close>, a transport failure), or it resolves to
  a response with a status and a body; \<open>response.json()\<close> then rejects (\<open>Unparseable\<close>)
  or resolves to a JSON value.
\<close>

datatype body = Unparseable | Parsed json

datatype http_reply = Failed | Reply int body

text \<open>
  Everything outside the program that a run depends on. \<open>upstream\<close> answers each URL
  (the eighteen URLs of a run differ, so one answer per URL loses nothing) and
  \<open>latency\<close> is the time the answer takes. The two \<open>host\<close> functions are the runtime's
  conversions of a string, an array or an object to a number (\<open>ToNumber\<close>) and to a time
  value (\<open>Date.parse\<close> of its string form), and \<open>host_multiply\<close> is its product of two
  doubles where rounding can occur; \<open>None\<close> is \<open>NaN\<close> or an infinity. They are left
  open: no statement below depends on what they return.
\<close>

record env =
  upstream :: "string \<Rightarrow> http_reply"
  latency :: "string \<Rightarrow> nat"
  host_ToNumber :: "json \<Rightarrow> rat option"
  host_DateParse :: "json \<Rightarrow> rat option"
  host_multiply :: "rat \<Rightarrow> rat \<Rightarrow> rat option"

text \<open>\<open>a * b\<close> on two numbers: exact where doubles are, the runtime's elsewhere.\<close>

definition js_multiply :: "env \<Rightarrow> rat \<Rightarrow> rat \<Rightarrow> rat option" where
  "js_multiply env a b =
     (if exact_double a \<and> exact_double b \<and> exact_double (a * b)
      then Some (a * b)
      else host_multiply env a b)"

text \<open>
  \<open>v.name\<close> for a name that no prototype defines (\<open>date\<close>, \<open>tvl\<close>, \<open>prices\<close>) and a
  \<open>v\<close> other than \<open>null\<close>: \<open>None\<close> is \<open>undefined\<close>.
\<close>

fun get_prop :: "json \<Rightarrow> string \<Rightarrow> json option" where
  "get_prop (JObj kvs) name = map_of kvs name"
| "get_prop v name = None"

fun truthy :: "json option \<Rightarrow> bool" where
  "truthy None = False"
| "truthy (Some JNull) = False"
| "truthy (Some (JBool b)) = b"
| "truthy (Some (JNum n)) = (n \<noteq> 0)"
| "truthy (Some (JStr s)) = (s \<noteq> [])"
| "truthy (Some v) = True"

text \<open>\<open>v || d\<close>\<close>

fun js_or :: "json option \<Rightarrow> json \<Rightarrow> json" where
  "js_or None d = d"
| "js_or (Some v) d = (if truthy (Some v) then v else d)"

fun ToNumber :: "env \<Rightarrow> json option \<Rightarrow> rat option" where
  "ToNumber env None = None"
| "ToNumber env (Some JNull) = Some 0"
| "ToNumber env (Some (JBool b)) = Some (if b then 1 else 0)"
| "ToNumber env (Some (JNum n)) = Some n"
| "ToNumber env (Some v) = host_ToNumber env v"

text \<open>
  \<open>TimeClip\<close>: a time value is an integral number of milliseconds of magnitude at most
  \<open>8.64e15\<close>; anything else is the invalid date.
\<close>

definition TimeClip :: "rat option \<Rightarrow> int option" where
  "TimeClip t =
     (case t of
        None \<Rightarrow> None
      | Some q \<Rightarrow>
          if \<bar>q\<bar> > 8640000000000000 then None
          else Some (if 0 \<le> q then \<lfloor>q\<rfloor> else \<lceil>q\<rceil>))"

text \<open>\<open>new Date(v)\<close> with one argument.\<close>

fun new_Date :: "env \<Rightarrow> json option \<Rightarrow> int option" where
  "new_Date env None = None"
| "new_Date env (Some JNull) = TimeClip (Some 0)"
| "new_Date env (Some (JBool b)) = TimeClip (Some (if b then 1 else 0))"
| "new_Date env (Some (JNum n)) = TimeClip (Some n)"
| "new_Date env (Some v) = TimeClip (host_DateParse env v)"

text \<open>\<open>toISOString\<close> raises a \<open>RangeError\<close> on the invalid date.\<close>

definition toISOString :: "int option \<Rightarrow> js_error + iso8601" where
  "toISOString d = (case d of None \<Rightarrow> Inl RangeError | Some t \<Rightarrow> Inr (ISO t))"

text \<open>\<open>Array.prototype.map\<close> with a callback that may raise: the first exception ends it.\<close>

fun map_throw :: "('a \<Rightarrow> js_error + 'b) \<Rightarrow> 'a list \<Rightarrow> js_error + 'b list" where
  "map_throw f [] = Inr []"
| "map_throw f (x # xs) =
     (case f x of
        Inl e \<Rightarrow> Inl e
      | Inr y \<Rightarrow> (case map_throw f xs of Inl e \<Rightarrow> Inl e | Inr ys \<Rightarrow> Inr (y # ys)))"

text \<open>
  The parameter pattern \<open>[timestamp, price]\<close>: the argument is iterated, so it must be an
  array or a string (whose elements are its characters); a missing element is
  \<open>undefined\<close>.
\<close>

fun destructure_pair :: "json \<Rightarrow> js_error + (json option \<times> json option)" where
  "destructure_pair (JArr []) = Inr (None, None)"
| "destructure_pair (JArr [a]) = Inr (Some a, None)"
| "destructure_pair (JArr (a # b # rest)) = Inr (Some a, Some b)"
| "destructure_pair (JStr []) = Inr (None, None)"
| "destructure_pair (JStr [a]) = Inr (Some (JStr [a]), None)"
| "destructure_pair (JStr (a # b # rest)) = Inr (Some (JStr [a]), Some (JStr [b]))"
| "destructure_pair v = Inl TypeError"

section \<open>Data model of the endpoints\<close>

text \<open>
  A point keeps what the upstream record held: \<open>tvl\<close>, \<open>timestamp\<close> and \<open>price\<close> are copied
  without inspection, so they are JSON values, or \<open>undefined\<close> (\<open>None\<close>).
\<close>

record tvl_point =
  tp_date :: iso8601
  tp_tvl :: "json option"

record price_point =
  pp_date :: iso8601
  pp_timestamp :: "json option"
  pp_price :: "json option"

text \<open>
  The two objects of a Dataset are built by assignments \<open>obj[key] = value\<close>: an
  association list, where \<open>AList.update\<close> replaces the value of a key that is there and
  appends a new key at the end, as property assignment does.
\<close>

record dataset =
  tvl_data :: "(string \<times> tvl_point list) list"
  price_data :: "(string \<times> price_point list) list"

text \<open>
  The state a handler runs in: the two keys of the cache store (\<open>None\<close> when
  \<open>kv.get\<close> gives \<open>null\<close>), the clock in milliseconds, and the URLs fetched so far.
  The store holds what the handlers write: a Dataset under \<open>blockchain_data\<close> and an ISO
  string under \<open>last_updated\<close>. It is taken to answer every \<open>get\<close> and \<open>set\<close>. The clock
  moves forward only, by the latency of each request and by each timer.
  \<open>console.error\<close> is not modelled.
\<close>

record world =
  kv_blockchain_data :: "dataset option"
  kv_last_updated :: "iso8601 option"
  clock :: int
  fetched :: "string list"

record ids =
  defillama :: string
  coingecko :: string

record request =
  authorization :: "string option"

datatype response_body =
    DataBody dataset iso8601
  | SuccessBody bool iso8601
  | ErrorBody string

datatype response = Response int response_body

definition fetch :: "env \<Rightarrow> string \<Rightarrow> world \<Rightarrow> http_reply \<times> world" where
  "fetch env url w =
     (upstream env url,
      w\<lparr>clock := clock w + int (latency env url), fetched := fetched w @ [url]\<rparr>)"

text \<open>\<open>await new Promise(resolve => setTimeout(resolve, ms))\<close>\<close>

definition delay :: "nat \<Rightarrow> world \<Rightarrow> world" where
  "delay ms w = w\<lparr>clock := clock w + int ms\<rparr>"

text \<open>\<open>new Date().toISOString()\<close>: the clock is taken to be a valid date.\<close>

definition now_iso :: "world \<Rightarrow> iso8601" where
  "now_iso w = ISO (clock w)"

section \<open>The refresh endpoint (src/pages/api/update-data.js)\<close>

definition refresher_BLOCKCHAIN_MAPPING :: "(string \<times> ids) list" where
  "refresher_BLOCKCHAIN_MAPPING =
     [(''Aptos'', \<lparr>defillama = ''aptos'', coingecko = ''aptos''\<rparr>),
      (''Avalanche'', \<lparr>defillama = ''Avalanche'', coingecko = ''avalanche-2''\<rparr>),
      (''Core DAO'', \<lparr>defillama = ''core'', coingecko = ''coredaoorg''\<rparr>),
      (''Flow'', \<lparr>defillama = ''flow'', coingecko = ''flow''\<rparr>),
      (''Injective'', \<lparr>defillama = ''injective'', coingecko = ''injective-protocol''\<rparr>),
      (''Optimism'', \<lparr>defillama = ''optimism'', coingecko = ''optimism''\<rparr>),
      (''Polygon'', \<lparr>defillama = ''polygon'', coingecko = ''matic-network''\<rparr>),
      (''XRP/XRPL'', \<lparr>defillama = ''XRPL'', coingecko = ''ripple''\<rparr>),
      (''Sei'', \<lparr>defillama = ''sei'', coingecko = ''sei-network''\<rparr>)]"

text \<open>The callback of \<open>data.map\<close> in \<open>fetchTvlData\<close>; \<open>item.date\<close> raises on \<open>null\<close>.\<close>

definition refresher_tvl_item :: "env \<Rightarrow> json \<Rightarrow> js_error + tvl_point" where
  "refresher_tvl_item env item =
     (if item = JNull then Inl TypeError
      else
        (case toISOString
                (TimeClip
                   (case ToNumber env (get_prop item ''date'') of
                      None \<Rightarrow> None
                    | Some n \<Rightarrow> js_multiply env n 1000)) of
           Inl e \<Rightarrow> Inl e
         | Inr d \<Rightarrow> Inr \<lparr>tp_date = d, tp_tvl = get_prop item ''tvl''\<rparr>))"

text \<open>
  The \<open>try\<close> block of \<open>fetchTvlData\<close>, from the reply on: \<open>Inl\<close> is an exception raised
  inside it, \<open>Inr\<close> the value it returns. \<open>data.map\<close> exists on arrays only.
\<close>

definition refresher_fetchTvlData_try :: "env \<Rightarrow> http_reply \<Rightarrow> js_error + tvl_point list" where
  "refresher_fetchTvlData_try env reply =
     (case reply of
        Failed \<Rightarrow> Inl NetworkError
      | Reply status b \<Rightarrow>
          if status = 200
          then (case b of
                  Unparseable \<Rightarrow> Inl SyntaxError
                | Parsed data \<Rightarrow>
                    (case data of
                       JArr items \<Rightarrow> map_throw (refresher_tvl_item env) items
                     | _ \<Rightarrow> Inl TypeError))
          else Inr [])"

definition refresher_fetchTvlData :: "env \<Rightarrow> string \<Rightarrow> world \<Rightarrow> tvl_point list \<times> world" where
  "refresher_fetchTvlData env blockchainId w =
     (let url = ''https://api.llama.fi/v2/historicalChainTvl/'' @ blockchainId;
          (reply, w1) = fetch env url w
      in (case refresher_fetchTvlData_try env reply of
            Inr points \<Rightarrow> (points, w1)
          | Inl error \<Rightarrow> ([], w1)))"

text \<open>The callback of \<open>prices.map\<close> in \<open>fetchPriceData\<close>.\<close>

definition refresher_price_item :: "env \<Rightarrow> json \<Rightarrow> js_error + price_point" where
  "refresher_price_item env elem =
     (case destructure_pair elem of
        Inl e \<Rightarrow> Inl e
      | Inr (timestamp, price) \<Rightarrow>
          (case toISOString (new_Date env timestamp) of
             Inl e \<Rightarrow> Inl e
           | Inr d \<Rightarrow> Inr \<lparr>pp_date = d, pp_timestamp = timestamp, pp_price = price\<rparr>))"

text \<open>The \<open>try\<close> block of \<open>fetchPriceData\<close>; \<open>data.prices\<close> raises on \<open>null\<close>.\<close>

definition refresher_fetchPriceData_try :: "env \<Rightarrow> http_reply \<Rightarrow> js_error + price_point list" where
  "refresher_fetchPriceData_try env reply =
     (case reply of
        Failed \<Rightarrow> Inl NetworkError
      | Reply status b \<Rightarrow>
          if status = 200
          then (case b of
                  Unparseable \<Rightarrow> Inl SyntaxError
                | Parsed data \<Rightarrow>
                    if data = JNull then Inl TypeError
                    else
                      (case js_or (get_prop data ''prices'') (JArr []) of
                         JArr prices \<Rightarrow> map_throw (refresher_price_item env) prices
                       | _ \<Rightarrow> Inl TypeError))
          else Inr [])"

definition refresher_fetchPriceData :: "env \<Rightarrow> string \<Rightarrow> world \<Rightarrow> price_point list \<times> world" where
  "refresher_fetchPriceData env coinId w =
     (let url = ''https://api.coingecko.com/api/v3/coins/'' @ coinId @ ''/market_chart'';
          params = ''vs_currency=usd&days=90&interval=daily'';
          (reply, w1) = fetch env (url @ ''?'' @ params) w
      in (case refresher_fetchPriceData_try env reply of
            Inr points \<Rightarrow> (points, w1)
          | Inl error \<Rightarrow> ([], w1)))"

text \<open>The \<open>for\<close> loop of the handler over \<open>Object.entries(BLOCKCHAIN_MAPPING)\<close>.\<close>

fun refresher_loop ::
  "env \<Rightarrow> (string \<times> ids) list \<Rightarrow>
   (string \<times> tvl_point list) list \<times> (string \<times> price_point list) list \<times> world \<Rightarrow>
   (string \<times> tvl_point list) list \<times> (string \<times> price_point list) list \<times> world" where
  "refresher_loop env [] acc = acc"
| "refresher_loop env ((blockchain, i) # rest) (tvlData, priceData, w) =
     (let (tvl, w1) = refresher_fetchTvlData env (defillama i) w;
          tvlData' = AList.update blockchain tvl tvlData;
          w2 = delay 1000 w1;
          (price, w3) = refresher_fetchPriceData env (coingecko i) w2;
          priceData' = AList.update blockchain price priceData;
          w4 = delay 1000 w3
      in refresher_loop env rest (tvlData', priceData', w4))"

definition refresher_handler :: "env \<Rightarrow> request \<Rightarrow> world \<Rightarrow> response \<times> world" where
  "refresher_handler env req w =
     (let authHeader = authorization req
      in if (case authHeader of
               None \<Rightarrow> True
             | Some h \<Rightarrow> h = [] \<or> \<not> prefix ''Bearer '' h)
         then (Response 401 (ErrorBody ''Unauthorized''), w)
         else
           (let (tvlData, priceData, w1) =
                  refresher_loop env refresher_BLOCKCHAIN_MAPPING ([], [], w);
                newData = \<lparr>tvl_data = tvlData, price_data = priceData\<rparr>;
                newLastUpdated = now_iso w1;
                w2 = w1\<lparr>kv_blockchain_data := Some newData\<rparr>;
                w3 = w2\<lparr>kv_last_updated := Some newLastUpdated\<rparr>
            in (Response 200 (SuccessBody True newLastUpdated), w3)))"

section \<open>The read endpoint (src/unnamed/part_000)\<close>

text \<open>
  The file declares its own mapping, fetchers and loop; they are embedded from its text,
  apart from those of the refresh endpoint.
\<close>

definition reader_BLOCKCHAIN_MAPPING :: "(string \<times> ids) list" where
  "reader_BLOCKCHAIN_MAPPING =
     [(''Aptos'', \<lparr>defillama = ''aptos'', coingecko = ''aptos''\<rparr>),
      (''Avalanche'', \<lparr>defillama = ''Avalanche'', coingecko = ''avalanche-2''\<rparr>),
      (''Core DAO'', \<lparr>defillama = ''core'', coingecko = ''coredaoorg''\<rparr>),
      (''Flow'', \<lparr>defillama = ''flow'', coingecko = ''flow''\<rparr>),
      (''Injective'', \<lparr>defillama = ''injective'', coingecko = ''injective-protocol''\<rparr>),
      (''Optimism'', \<lparr>defillama = ''optimism'', coingecko = ''optimism''\<rparr>),
      (''Polygon'', \<lparr>defillama = ''polygon'', coingecko = ''matic-network''\<rparr>),
      (''XRP/XRPL'', \<lparr>defillama = ''XRPL'', coingecko = ''ripple''\<rparr>),
      (''Sei'', \<lparr>defillama = ''sei'', coingecko = ''sei-network''\<rparr>)]"

text \<open>The callback of \<open>data.map\<close> in \<open>fetchTvlData\<close>; \<open>item.date\<close> raises on \<open>null\<close>.\<close>

definition reader_tvl_item :: "env \<Rightarrow> json \<Rightarrow> js_error + tvl_point" where
  "reader_tvl_item env item =
     (if item = JNull then Inl TypeError
      else
        (case toISOString
                (TimeClip
                   (case ToNumber env (get_prop item ''date'') of
                      None \<Rightarrow> None
                    | Some n \<Rightarrow> js_multiply env n 1000)) of
           Inl e \<Rightarrow> Inl e
         | Inr d \<Rightarrow> Inr \<lparr>tp_date = d, tp_tvl = get_prop item ''tvl''\<rparr>))"

text \<open>
  The \<open>try\<close> block of \<open>fetchTvlData\<close>, from the reply on: \<open>Inl\<close> is an exception raised
  inside it, \<open>Inr\<close> the value it returns. \<open>data.map\<close> exists on arrays only.
\<close>

definition reader_fetchTvlData_try :: "env \<Rightarrow> http_reply \<Rightarrow> js_error + tvl_point list" where
  "reader_fetchTvlData_try env reply =
     (case reply of
        Failed \<Rightarrow> Inl NetworkError
      | Reply status b \<Rightarrow>
          if status = 200
          then (case b of
                  Unparseable \<Rightarrow> Inl SyntaxError
                | Parsed data \<Rightarrow>
                    (case data of
                       JArr items \<Rightarrow> map_throw (reader_tvl_item env) items
                     | _ \<Rightarrow> Inl TypeError))
          else Inr [])"

definition reader_fetchTvlData :: "env \<Rightarrow> string \<Rightarrow> world \<Rightarrow> tvl_point list \<times> world" where
  "reader_fetchTvlData env blockchainId w =
     (let url = ''https://api.llama.fi/v2/historicalChainTvl/'' @ blockchainId;
          (reply, w1) = fetch env url w
      in (case reader_fetchTvlData_try env reply of
            Inr points \<Rightarrow> (points, w1)
          | Inl error \<Rightarrow> ([], w1)))"

text \<open>The callback of \<open>prices.map\<close> in \<open>fetchPriceData\<close>.\<close>

definition reader_price_item :: "env \<Rightarrow> json \<Rightarrow> js_error + price_point" where
  "reader_price_item env elem =
     (case destructure_pair elem of
        Inl e \<Rightarrow> Inl e
      | Inr (timestamp, price) \<Rightarrow>
          (case toISOString (new_Date env timestamp) of
             Inl e \<Rightarrow> Inl e
           | Inr d \<Rightarrow> Inr \<lparr>pp_date = d, pp_timestamp = timestamp, pp_price = price\<rparr>))"

text \<open>The \<open>try\<close> block of \<open>fetchPriceData\<close>; \<open>data.prices\<close> raises on \<open>null\<close>.\<close>

definition reader_fetchPriceData_try :: "env \<Rightarrow> http_reply \<Rightarrow> js_error + price_point list" where
  "reader_fetchPriceData_try env reply =
     (case reply of
        Failed \<Rightarrow> Inl NetworkError
      | Reply status b \<Rightarrow>
          if status = 200
          then (case b of
                  Unparseable \<Rightarrow> Inl SyntaxError
                | Parsed data \<Rightarrow>
                    if data = JNull then Inl TypeError
                    else
                      (case js_or (get_prop data ''prices'') (JArr []) of
                         JArr prices \<Rightarrow> map_throw (reader_price_item env) prices
                       | _ \<Rightarrow> Inl TypeError))
          else Inr [])"

definition reader_fetchPriceData :: "env \<Rightarrow> string \<Rightarrow> world \<Rightarrow> price_point list \<times> world" where
  "reader_fetchPriceData env coinId w =
     (let url = ''https://api.coingecko.com/api/v3/coins/'' @ coinId @ ''/market_chart'';
          params = ''vs_currency=usd&days=90&interval=daily'';
          (reply, w1) = fetch env (url @ ''?'' @ params) w
      in (case reader_fetchPriceData_try env reply of
            Inr points \<Rightarrow> (points, w1)
          | Inl error \<Rightarrow> ([], w1)))"

text \<open>The \<open>for\<close> loop of the handler over \<open>Object.entries(BLOCKCHAIN_MAPPING)\<close>.\<close>

fun reader_loop ::
  "env \<Rightarrow> (string \<times> ids) list \<Rightarrow>
   (string \<times> tvl_point list) list \<times> (string \<times> price_point list) list \<times> world \<Rightarrow>
   (string \<times> tvl_point list) list \<times> (string \<times> price_point list) list \<times> world" where
  "reader_loop env [] acc = acc"
| "reader_loop env ((blockchain, i) # rest) (tvlData, priceData, w) =
     (let (tvl, w1) = reader_fetchTvlData env (defillama i) w;
          tvlData' = AList.update blockchain tvl tvlData;
          w2 = delay 1000 w1;
          (price, w3) = reader_fetchPriceData env (coingecko i) w2;
          priceData' = AList.update blockchain price priceData;
          w4 = delay 1000 w3
      in reader_loop env rest (tvlData', priceData', w4))"

text \<open>Lines 87 to 119: what the handler does when it does not answer from the cache.\<close>

definition reader_refresh :: "env \<Rightarrow> world \<Rightarrow> response \<times> world" where
  "reader_refresh env w =
     (let (tvlData, priceData, w1) = reader_loop env reader_BLOCKCHAIN_MAPPING ([], [], w);
          newData = \<lparr>tvl_data = tvlData, price_data = priceData\<rparr>;
          newLastUpdated = now_iso w1;
          w2 = w1\<lparr>kv_blockchain_data := Some newData\<rparr>;
          w3 = w2\<lparr>kv_last_updated := Some newLastUpdated\<rparr>
      in (Response 200 (DataBody newData newLastUpdated), w3))"

text \<open>
  A stored Dataset is an object and a stored timestamp a non-empty string, so either is
  truthy exactly when its key is there.
\<close>

definition reader_handler :: "env \<Rightarrow> world \<Rightarrow> response \<times> world" where
  "reader_handler env w =
     (let cachedData = kv_blockchain_data w;
          lastUpdated = kv_last_updated w
      in (case (cachedData, lastUpdated) of
            (Some cached, Some lu) \<Rightarrow>
              (let lastUpdatedTime = time_of lu;
                   currentTime = clock w
               in if currentTime - lastUpdatedTime < 3600000
                  then (Response 200 (DataBody cached lu), w)
                  else reader_refresh env w)
          | _ \<Rightarrow> reader_refresh env w))"

section \<open>The card's derived metrics (src/components/BlockchainCard.js)\<close>

text \<open>
  The component is given the two series of one chain as the read endpoint delivers them:
  points whose date is an ISO string and whose \<open>tvl\<close> or \<open>price\<close> is the JSON value the
  upstream record held, or is missing (\<open>None\<close>).
\<close>

text \<open>A number in the browser: a double, or one of the three values that are not finite.\<close>

datatype jsnum = NaN | Num rat | PosInf | NegInf

text \<open>
  The browser's part of the arithmetic: the conversion of a string, an array or an object
  to a number, and the three operations wherever the model does not compute them (an
  operand that is not finite, a division by zero, a result that may be rounded).
\<close>

record browser =
  br_ToNumber :: "json \<Rightarrow> jsnum"
  br_minus :: "jsnum \<Rightarrow> jsnum \<Rightarrow> jsnum"
  br_divide :: "jsnum \<Rightarrow> jsnum \<Rightarrow> jsnum"
  br_times :: "jsnum \<Rightarrow> jsnum \<Rightarrow> jsnum"

text \<open>The number an operand of \<open>-\<close>, \<open>/\<close>, \<open>*\<close> or \<open>>\<close> is converted to.\<close>

fun card_ToNumber :: "browser \<Rightarrow> json option \<Rightarrow> jsnum" where
  "card_ToNumber br None = NaN"
| "card_ToNumber br (Some JNull) = Num 0"
| "card_ToNumber br (Some (JBool b)) = Num (if b then 1 else 0)"
| "card_ToNumber br (Some (JNum n)) = Num n"
| "card_ToNumber br (Some v) = br_ToNumber br v"

text \<open>\<open>x > 0\<close> on a number: false on \<open>NaN\<close>.\<close>

fun js_positive :: "jsnum \<Rightarrow> bool" where
  "js_positive (Num q) = (0 < q)"
| "js_positive PosInf = True"
| "js_positive x = False"

definition num_minus :: "browser \<Rightarrow> jsnum \<Rightarrow> jsnum \<Rightarrow> jsnum" where
  "num_minus br x y =
     (case (x, y) of
        (Num a, Num b) \<Rightarrow>
          if exact_double a \<and> exact_double b \<and> exact_double (a - b)
          then Num (a - b)
          else br_minus br x y
      | _ \<Rightarrow> br_minus br x y)"

definition num_divide :: "browser \<Rightarrow> jsnum \<Rightarrow> jsnum \<Rightarrow> jsnum" where
  "num_divide br x y =
     (case (x, y) of
        (Num a, Num b) \<Rightarrow>
          if b \<noteq> 0 \<and> exact_double a \<and> exact_double b \<and> exact_double (a / b)
          then Num (a / b)
          else br_divide br x y
      | _ \<Rightarrow> br_divide br x y)"

definition num_times :: "browser \<Rightarrow> jsnum \<Rightarrow> jsnum \<Rightarrow> jsnum" where
  "num_times br x y =
     (case (x, y) of
        (Num a, Num b) \<Rightarrow>
          if exact_double a \<and> exact_double b \<and> exact_double (a * b)
          then Num (a * b)
          else br_times br x y
      | _ \<Rightarrow> br_times br x y)"

text \<open>The formatted series: \<open>date\<close> becomes a \<open>Date\<close> object (its time value).\<close>

record formatted_tvl =
  ft_date :: int
  ft_tvl :: "json option"

record formatted_price =
  fp_date :: int
  fp_price :: "json option"

definition formattedTvlData :: "tvl_point list \<Rightarrow> formatted_tvl list" where
  "formattedTvlData tvlData =
     map (\<lambda>item. \<lparr>ft_date = time_of (tp_date item), ft_tvl = tp_tvl item\<rparr>) tvlData"

definition formattedPriceData :: "price_point list \<Rightarrow> formatted_price list" where
  "formattedPriceData priceData =
     map (\<lambda>item. \<lparr>fp_date = time_of (pp_date item), fp_price = pp_price item\<rparr>) priceData"

text \<open>
  Lines 23 to 26. Reading \<open>.tvl\<close> of an element that does not exist would raise a
  \<open>TypeError\<close>, so the reads return a sum. The value read is not converted yet.
\<close>

definition currentTvl :: "formatted_tvl list \<Rightarrow> js_error + json option" where
  "currentTvl fd =
     (if length fd > 0
      then (case js_index fd (int (length fd) - 1) of
              None \<Rightarrow> Inl TypeError
            | Some item \<Rightarrow> Inr (ft_tvl item))
      else Inr (Some (JNum 0)))"

definition monthAgoTvlIndex :: "formatted_tvl list \<Rightarrow> int" where
  "monthAgoTvlIndex fd = (if length fd > 30 then int (length fd) - 31 else 0)"

definition monthAgoTvl :: "formatted_tvl list \<Rightarrow> js_error + json option" where
  "monthAgoTvl fd =
     (if length fd > 0
      then (case js_index fd (monthAgoTvlIndex fd) of
              None \<Rightarrow> Inl TypeError
            | Some item \<Rightarrow> Inr (ft_tvl item))
      else Inr (Some (JNum 0)))"

text \<open>
  The change, with the divisors of the divisions its computation performed, so that a
  statement can speak of them.
\<close>

record change =
  change_value :: jsnum
  change_divisors :: "jsnum list"

definition tvlMonthlyChange :: "browser \<Rightarrow> formatted_tvl list \<Rightarrow> js_error + change" where
  "tvlMonthlyChange br fd =
     (case currentTvl fd of
        Inl e \<Rightarrow> Inl e
      | Inr cur \<Rightarrow>
          (case monthAgoTvl fd of
             Inl e \<Rightarrow> Inl e
           | Inr ago \<Rightarrow>
               Inr (if js_positive (card_ToNumber br ago)
                    then \<lparr>change_value =
                            num_times br
                              (num_divide br
                                 (num_minus br (card_ToNumber br cur) (card_ToNumber br ago))
                                 (card_ToNumber br ago))
                              (Num 100),
                          change_divisors = [card_ToNumber br ago]\<rparr>
                    else \<lparr>change_value = Num 0, change_divisors = []\<rparr>)))"





section \<open>Vocabulary of the statements\<close>

text \<open>The URL each fetcher requests for an identifier.\<close>

definition tvl_url :: "string \<Rightarrow> string" where
  "tvl_url blockchainId = ''https://api.llama.fi/v2/historicalChainTvl/'' @ blockchainId"

definition price_url :: "string \<Rightarrow> string" where
  "price_url coinId =
     ''https://api.coingecko.com/api/v3/coins/'' @ coinId @
     ''/market_chart?vs_currency=usd&days=90&interval=daily''"

text \<open>The requests of one pass over a mapping, in the order they are made.\<close>

definition upstream_calls :: "(string \<times> ids) list \<Rightarrow> string list" where
  "upstream_calls m = concat (map (\<lambda>(name, i). [tvl_url (defillama i), price_url (coingecko i)]) m)"

text \<open>The nine chain names.\<close>

definition chain_names :: "string list" where
  "chain_names =
     [''Aptos'', ''Avalanche'', ''Core DAO'', ''Flow'', ''Injective'', ''Optimism'', ''Polygon'',
      ''XRP/XRPL'', ''Sei'']"

text \<open>
  A failed upstream call: the request is rejected, the status is not 200, or the body of
  a 200 response cannot be read as JSON.
\<close>

fun upstream_failed :: "http_reply \<Rightarrow> bool" where
  "upstream_failed Failed = True"
| "upstream_failed (Reply status b) = (status \<noteq> 200 \<or> b = Unparseable)"

text \<open>A request that passes the refresh endpoint's check of its Authorization header.\<close>

definition authorized :: "request \<Rightarrow> bool" where
  "authorized req =
     (case authorization req of None \<Rightarrow> False | Some h \<Rightarrow> prefix ''Bearer '' h)"

text \<open>The freshness test of the read endpoint: both keys present, less than one hour old.\<close>

definition cache_fresh :: "world \<Rightarrow> bool" where
  "cache_fresh w =
     (case kv_blockchain_data w of
        None \<Rightarrow> False
      | Some d \<Rightarrow>
          (case kv_last_updated w of
             None \<Rightarrow> False
           | Some lu \<Rightarrow> clock w - time_of lu < 3600000))"








section \<open>Runs of the system\<close>

text \<open>
  The states the store can be in when only the two endpoints write to it: it starts
  empty, and then requests are served, with any upstream and any request, and time passes.
\<close>

inductive reachable :: "world \<Rightarrow> bool" where
  start: "reachable \<lparr>kv_blockchain_data = None, kv_last_updated = None, clock = t, fetched = []\<rparr>"
| read: "reachable w \<Longrightarrow> reachable (snd (reader_handler env w))"
| refresh: "reachable w \<Longrightarrow> reachable (snd (refresher_handler env req w))"
| wait: "reachable w \<Longrightarrow> reachable (delay ms w)"

text \<open>
  The two keys are there together or not at all, and a stored timestamp is not later than
  the clock.
\<close>

definition store_consistent :: "world \<Rightarrow> bool" where
  "store_consistent w =
     ((kv_blockchain_data w = None \<longleftrightarrow> kv_last_updated w = None) \<and>
      (case kv_last_updated w of None \<Rightarrow> True | Some lu \<Rightarrow> time_of lu \<le> clock w))"

section \<open>Sample inputs\<close>

text \<open>
  A TVL series of 90 points, the first dated 2024-01-01 and the last 2024-03-31, whose
  last value is 150 and whose 31st value from the end is 120.
\<close>

definition ninety_points :: "tvl_point list" where
  "ninety_points =
     replicate 59 \<lparr>tp_date = ISO 1704067200000, tp_tvl = Some (JNum 100)\<rparr> @
     [\<lparr>tp_date = ISO 1709164800000, tp_tvl = Some (JNum 120)\<rparr>] @
     replicate 29 \<lparr>tp_date = ISO 1709251200000, tp_tvl = Some (JNum 135)\<rparr> @
     [\<lparr>tp_date = ISO 1711843200000, tp_tvl = Some (JNum 150)\<rparr>]"

text \<open>
  A browser whose own part of the arithmetic always answers \<open>NaN\<close>: what the sample
  inputs compute, the model computes.
\<close>

definition sample_browser :: browser where
  "sample_browser =
     \<lparr>br_ToNumber = (\<lambda>v. NaN), br_minus = (\<lambda>x y. NaN), br_divide = (\<lambda>x y. NaN),
      br_times = (\<lambda>x y. NaN)\<rparr>"



text \<open>
  An upstream where the TVL API answers for \<open>aptos\<close> with two records, for \<open>flow\<close> with a
  record dated beyond the range of a \<open>Date\<close>, and for \<open>sei\<close> and \<open>foo\<close> with status 500;
  the price API answers for \<open>aptos\<close> with one pair, for \<open>flow\<close> with an object that has
  no \<open>prices\<close> and for \<open>optimism\<close> with \<open>prices\<close> set to \<open>null\<close>; every other request
  is rejected.
\<close>

definition sample_env :: env where
  "sample_env =
     \<lparr>upstream = (\<lambda>url.
        if url = tvl_url ''aptos''
        then Reply 200 (Parsed (JArr
               [JObj [(''date'', JNum 1700000000), (''tvl'', JNum 5)],
                JObj [(''date'', JNum 1700086400), (''tvl'', JNum 7)]]))
        else if url = price_url ''aptos''
        then Reply 200 (Parsed (JObj [(''prices'', JArr [JArr [JNum 1700000000000, JNum (3 / 2)]])]))
        else if url = tvl_url ''flow''
        then Reply 200 (Parsed (JArr [JObj [(''date'', JNum 8700000000000), (''tvl'', JNum 5)]]))
        else if url = price_url ''flow''
        then Reply 200 (Parsed (JObj [(''status'', JStr ''ok'')]))
        else if url = price_url ''optimism''
        then Reply 200 (Parsed (JObj [(''prices'', JNull)]))
        else if url = tvl_url ''sei'' \<or> url = tvl_url ''foo''
        then Reply 500 Unparseable
        else Failed),
      latency = (\<lambda>url. 250),
      host_ToNumber = (\<lambda>v. None),
      host_DateParse = (\<lambda>v. None),
      host_multiply = (\<lambda>a b. None)\<rparr>"

definition sample_dataset :: dataset where
  "sample_dataset =
     \<lparr>tvl_data = [(''Aptos'', [\<lparr>tp_date = ISO 1700000000000, tp_tvl = Some (JNum 5)\<rparr>])],
      price_data = [(''Aptos'', [])]\<rparr>"

text \<open>Stores that are empty, 30 minutes old and exactly one hour old.\<close>

definition empty_world :: world where
  "empty_world =
     \<lparr>kv_blockchain_data = None, kv_last_updated = None, clock = 1711843200000, fetched = []\<rparr>"

definition fresh_world :: world where
  "fresh_world =
     \<lparr>kv_blockchain_data = Some sample_dataset, kv_last_updated = Some (ISO 1711841400000),
      clock = 1711843200000, fetched = []\<rparr>"

definition stale_world :: world where
  "stale_world =
     \<lparr>kv_blockchain_data = Some sample_dataset, kv_last_updated = Some (ISO 1711839600000),
      clock = 1711843200000, fetched = []\<rparr>"

definition bearer_request :: request where
  "bearer_request = \<lparr>authorization = Some ''Bearer secret''\<rparr>"

definition basic_request :: request where
  "basic_request = \<lparr>authorization = Some ''Basic dXNlcjpwdw==''\<rparr>"

definition anonymous_request :: request where
  "anonymous_request = \<lparr>authorization = None\<rparr>"

section \<open>The card's metrics: proofs\<close>

lemma js_index_formattedTvl:
  "js_index (formattedTvlData xs) i =
     (if 0 \<le> i \<and> i < int (length xs)
      then Some \<lparr>ft_date = time_of (tp_date (xs ! nat i)), ft_tvl = tp_tvl (xs ! nat i)\<rparr>
      else None)"
  by (auto simp add: js_index_def formattedTvlData_def)


lemma length_formattedTvl [simp]: "length (formattedTvlData xs) = length xs"
  by (simp add: formattedTvlData_def)

lemma length_formattedPrice [simp]: "length (formattedPriceData xs) = length xs"
  by (simp add: formattedPriceData_def)

lemma nat_pred_length: "xs \<noteq> [] \<Longrightarrow> nat (int (length xs) - 1) = length xs - 1"
  by (cases xs) auto

lemma currentTvl_eq:
  "currentTvl (formattedTvlData xs) = Inr (if xs = [] then Some (JNum 0) else tp_tvl (last xs))"
  by (cases "xs = []")
     (simp_all add: currentTvl_def js_index_formattedTvl last_conv_nth nat_pred_length)

lemma monthAgoTvl_eq:
  "monthAgoTvl (formattedTvlData xs) =
     Inr (if xs = [] then Some (JNum 0)
          else tp_tvl (xs ! (if length xs > 30 then length xs - 31 else 0)))"
  by (cases "xs = []")
     (auto simp add: monthAgoTvl_def monthAgoTvlIndex_def js_index_formattedTvl nat_diff_distrib)





text \<open>The numbers of the examples are doubles, and so are the results computed from them.\<close>

lemma exact_double_examples:
  "exact_double 150" "exact_double 120" "exact_double 100" "exact_double 50"
  "exact_double (150 - 120)" "exact_double ((150 - 120) / 120)"
  "exact_double ((150 - 120) / 120 * 100)"
  "exact_double (150 - 100)" "exact_double ((150 - 100) / 100)"
  "exact_double ((150 - 100) / 100 * 100)"
  by (simp_all add: exact_double_def is_integer_def)



text \<open>
  C8. For a TVL series of 90 points whose last value is 150 and whose 31st value from
  the end (index 59) is 120, the lookback index is the length minus 31 and the 30-day
  change is (150 - 120) / 120 * 100 = 25, whatever the browser: each step is exact in
  doubles.
\<close>

theorem thirty_day_change_example:
  assumes "length tvlData = 90"
    and "tp_tvl (tvlData ! 89) = Some (JNum 150)"
    and "tp_tvl (tvlData ! 59) = Some (JNum 120)"
  shows "monthAgoTvlIndex (formattedTvlData tvlData) = int (length tvlData) - 31 \<and>
         currentTvl (formattedTvlData tvlData) = Inr (Some (JNum 150)) \<and>
         monthAgoTvl (formattedTvlData tvlData) = Inr (Some (JNum 120)) \<and>
         tvlMonthlyChange br (formattedTvlData tvlData) =
           Inr \<lparr>change_value = Num ((150 - 120) / 120 * 100), change_divisors = [Num 120]\<rparr> \<and>
         tvlMonthlyChange br (formattedTvlData tvlData) =
           Inr \<lparr>change_value = Num 25, change_divisors = [Num 120]\<rparr>"
proof -
  from assms(1) have ne: "tvlData \<noteq> []" by auto
  from assms(1) ne have l: "last tvlData = tvlData ! 89" by (simp add: last_conv_nth)
  have cur: "currentTvl (formattedTvlData tvlData) = Inr (Some (JNum 150))"
    using assms ne l by (simp add: currentTvl_eq)
  have ago: "monthAgoTvl (formattedTvlData tvlData) = Inr (Some (JNum 120))"
    using assms ne by (simp add: monthAgoTvl_eq)
  have minus: "num_minus br (Num 150) (Num 120) = Num 30"
    using exact_double_examples by (simp add: num_minus_def)
  have divide: "num_divide br (Num 30) (Num 120) = Num (1 / 4)"
    using exact_double_examples by (simp add: num_divide_def)
  have times: "num_times br (Num (1 / 4)) (Num 100) = Num 25"
    using exact_double_examples by (simp add: num_times_def)
  have change: "tvlMonthlyChange br (formattedTvlData tvlData) =
      Inr \<lparr>change_value = Num 25, change_divisors = [Num 120]\<rparr>"
    unfolding tvlMonthlyChange_def cur ago by (simp add: minus divide times)
  show ?thesis
    using assms(1) cur ago change by (simp add: monthAgoTvlIndex_def)
qed

text \<open>The statement of C8 at a sample input.\<close>

theorem thirty_day_change_example_witness:
  "length ninety_points = 90 \<and>
   tp_tvl (ninety_points ! 89) = Some (JNum 150) \<and>
   tp_tvl (ninety_points ! 59) = Some (JNum 120) \<and>
   monthAgoTvlIndex (formattedTvlData ninety_points) = 59 \<and>
   tvlMonthlyChange sample_browser (formattedTvlData ninety_points) =
     Inr \<lparr>change_value = Num 25, change_divisors = [Num 120]\<rparr>"
proof -
  have h1: "length ninety_points = 90"
    by (simp add: ninety_points_def)
  have h2: "tp_tvl (ninety_points ! 89) = Some (JNum 150)"
    by (simp add: ninety_points_def nth_append)
  have h3: "tp_tvl (ninety_points ! 59) = Some (JNum 120)"
    by (simp add: ninety_points_def nth_append)
  show ?thesis
    using thirty_day_change_example [OF h1 h2 h3, of sample_browser] h1 h2 h3 by simp
qed

section \<open>The endpoints: proofs\<close>

subsection \<open>One fetch\<close>

lemma refresher_fetchTvlData_fst:
  "fst (refresher_fetchTvlData env blockchainId w) =
     (case refresher_fetchTvlData_try env (upstream env (tvl_url blockchainId)) of
        Inr points \<Rightarrow> points
      | Inl e \<Rightarrow> [])"
  by (simp add: refresher_fetchTvlData_def fetch_def tvl_url_def Let_def split: sum.splits)

lemma refresher_fetchTvlData_snd:
  "snd (refresher_fetchTvlData env blockchainId w) =
     w\<lparr>clock := clock w + int (latency env (tvl_url blockchainId)),
       fetched := fetched w @ [tvl_url blockchainId]\<rparr>"
  by (simp add: refresher_fetchTvlData_def fetch_def tvl_url_def Let_def split: sum.splits)

lemma refresher_fetchPriceData_fst:
  "fst (refresher_fetchPriceData env coinId w) =
     (case refresher_fetchPriceData_try env (upstream env (price_url coinId)) of
        Inr points \<Rightarrow> points
      | Inl e \<Rightarrow> [])"
  by (simp add: refresher_fetchPriceData_def fetch_def price_url_def Let_def split: sum.splits)

lemma refresher_fetchPriceData_snd:
  "snd (refresher_fetchPriceData env coinId w) =
     w\<lparr>clock := clock w + int (latency env (price_url coinId)),
       fetched := fetched w @ [price_url coinId]\<rparr>"
  by (simp add: refresher_fetchPriceData_def fetch_def price_url_def Let_def split: sum.splits)

subsection \<open>The two copies agree\<close>

lemma reader_tvl_item_eq: "reader_tvl_item = refresher_tvl_item"
  unfolding reader_tvl_item_def refresher_tvl_item_def ..

lemma reader_price_item_eq: "reader_price_item = refresher_price_item"
  unfolding reader_price_item_def refresher_price_item_def ..

lemma reader_fetchTvlData_try_eq: "reader_fetchTvlData_try = refresher_fetchTvlData_try"
  unfolding reader_fetchTvlData_try_def refresher_fetchTvlData_try_def reader_tvl_item_eq ..

lemma reader_fetchPriceData_try_eq: "reader_fetchPriceData_try = refresher_fetchPriceData_try"
  unfolding reader_fetchPriceData_try_def refresher_fetchPriceData_try_def reader_price_item_eq ..

lemma reader_fetchTvlData_eq: "reader_fetchTvlData = refresher_fetchTvlData"
  unfolding reader_fetchTvlData_def refresher_fetchTvlData_def reader_fetchTvlData_try_eq ..

lemma reader_fetchPriceData_eq: "reader_fetchPriceData = refresher_fetchPriceData"
  unfolding reader_fetchPriceData_def refresher_fetchPriceData_def reader_fetchPriceData_try_eq ..

lemma reader_loop_eq: "reader_loop env m acc = refresher_loop env m acc"
proof (induction m arbitrary: acc)
  case Nil
  show ?case by simp
next
  case (Cons a m)
  obtain k i where a: "a = (k, i)" by (cases a)
  obtain T P w where acc: "acc = (T, P, w)" by (cases acc)
  show ?case
    unfolding a acc reader_loop.simps refresher_loop.simps
      reader_fetchTvlData_eq reader_fetchPriceData_eq
    by (simp add: split_beta Let_def Cons.IH)
qed

lemma reader_mapping_eq: "reader_BLOCKCHAIN_MAPPING = refresher_BLOCKCHAIN_MAPPING"
  by (simp add: reader_BLOCKCHAIN_MAPPING_def refresher_BLOCKCHAIN_MAPPING_def)

subsection \<open>The loop\<close>

lemma refresher_loop_Cons:
  "refresher_loop env ((k, i) # rest) (T, P, w) =
     refresher_loop env rest
       (AList.update k (fst (refresher_fetchTvlData env (defillama i) w)) T,
        AList.update k
          (fst (refresher_fetchPriceData env (coingecko i)
                 (delay 1000 (snd (refresher_fetchTvlData env (defillama i) w))))) P,
        delay 1000
          (snd (refresher_fetchPriceData env (coingecko i)
                 (delay 1000 (snd (refresher_fetchTvlData env (defillama i) w))))))"
  by (simp add: split_beta Let_def)

lemma refresher_loop_world:
  "refresher_loop env m (T, P, w) = (T', P', w') \<Longrightarrow>
     kv_blockchain_data w' = kv_blockchain_data w \<and>
     kv_last_updated w' = kv_last_updated w \<and>
     fetched w' = fetched w @ upstream_calls m \<and>
     clock w + 2000 * int (length m) \<le> clock w'"
proof (induction m arbitrary: T P w)
  case Nil
  then show ?case by (simp add: upstream_calls_def)
next
  case (Cons a m)
  obtain k i where a: "a = (k, i)" by (cases a)
  from Cons.prems have
    "refresher_loop env m
       (AList.update k (fst (refresher_fetchTvlData env (defillama i) w)) T,
        AList.update k
          (fst (refresher_fetchPriceData env (coingecko i)
                 (delay 1000 (snd (refresher_fetchTvlData env (defillama i) w))))) P,
        delay 1000
          (snd (refresher_fetchPriceData env (coingecko i)
                 (delay 1000 (snd (refresher_fetchTvlData env (defillama i) w)))))) = (T', P', w')"
    unfolding a refresher_loop_Cons .
  from Cons.IH [OF this] show ?case
    by (simp add: a upstream_calls_def delay_def refresher_fetchTvlData_snd
          refresher_fetchPriceData_snd)
qed

lemma update_keys_fresh: "k \<notin> fst ` set al \<Longrightarrow> map fst (AList.update k v al) = map fst al @ [k]"
  by (simp add: update_keys)

lemma refresher_loop_keys:
  "refresher_loop env m (T, P, w) = (T', P', w') \<Longrightarrow> distinct (map fst m) \<Longrightarrow>
     fst ` set m \<inter> fst ` set T = {} \<Longrightarrow> fst ` set m \<inter> fst ` set P = {} \<Longrightarrow>
     map fst T' = map fst T @ map fst m \<and> map fst P' = map fst P @ map fst m"
proof (induction m arbitrary: T P w)
  case Nil
  then show ?case by simp
next
  case (Cons a m)
  obtain k i where a: "a = (k, i)" by (cases a)
  let ?T = "AList.update k (fst (refresher_fetchTvlData env (defillama i) w)) T"
  let ?P = "AList.update k
          (fst (refresher_fetchPriceData env (coingecko i)
                 (delay 1000 (snd (refresher_fetchTvlData env (defillama i) w))))) P"
  from Cons.prems(1) obtain w1 where run: "refresher_loop env m (?T, ?P, w1) = (T', P', w')"
    unfolding a refresher_loop_Cons by blast
  from Cons.prems(3) a have kT: "k \<notin> fst ` set T" by auto
  from Cons.prems(4) a have kP: "k \<notin> fst ` set P" by auto
  from Cons.prems(2) a have d: "distinct (map fst m)" and km: "k \<notin> fst ` set m" by auto
  have dT: "fst ` set m \<inter> fst ` set ?T = {}"
    using Cons.prems(3) km a by (auto simp add: dom_update)
  have dP: "fst ` set m \<inter> fst ` set ?P = {}"
    using Cons.prems(4) km a by (auto simp add: dom_update)
  from Cons.IH [OF run d dT dP] show ?case
    by (simp add: a update_keys_fresh [OF kT] update_keys_fresh [OF kP])
qed

lemma refresher_loop_values:
  "refresher_loop env m (T, P, w) = (T', P', w') \<Longrightarrow> distinct (map fst m) \<Longrightarrow>
     map_of T' k =
       (case map_of m k of
          None \<Rightarrow> map_of T k
        | Some i \<Rightarrow> Some (fst (refresher_fetchTvlData env (defillama i) w0))) \<and>
     map_of P' k =
       (case map_of m k of
          None \<Rightarrow> map_of P k
        | Some i \<Rightarrow> Some (fst (refresher_fetchPriceData env (coingecko i) w0)))"
proof (induction m arbitrary: T P w)
  case Nil
  then show ?case by simp
next
  case (Cons a m)
  obtain k' i where a: "a = (k', i)" by (cases a)
  let ?T = "AList.update k' (fst (refresher_fetchTvlData env (defillama i) w)) T"
  let ?P = "AList.update k'
          (fst (refresher_fetchPriceData env (coingecko i)
                 (delay 1000 (snd (refresher_fetchTvlData env (defillama i) w))))) P"
  from Cons.prems(1) obtain w1 where run: "refresher_loop env m (?T, ?P, w1) = (T', P', w')"
    unfolding a refresher_loop_Cons by blast
  from Cons.prems(2) a have d: "distinct (map fst m)" and km: "map_of m k' = None"
    by (auto simp add: map_of_eq_None_iff)
  from Cons.IH [OF run d] km show ?case
    by (auto simp add: a update_conv' refresher_fetchTvlData_fst refresher_fetchPriceData_fst
          split: option.splits)
qed

subsection \<open>The handlers\<close>

lemma mapping_names: "map fst refresher_BLOCKCHAIN_MAPPING = chain_names"
  by (simp add: refresher_BLOCKCHAIN_MAPPING_def chain_names_def)

lemma chain_names_distinct: "distinct chain_names"
  by (simp add: chain_names_def)

lemma chain_names_length: "length chain_names = 9"
  by (simp add: chain_names_def)

lemma mapping_distinct: "distinct (map fst refresher_BLOCKCHAIN_MAPPING)"
  by (simp add: mapping_names chain_names_distinct)

lemma failed_tvl_empty:
  "upstream_failed reply \<Longrightarrow> (case refresher_fetchTvlData_try env reply of Inr p \<Rightarrow> p | Inl e \<Rightarrow> []) = []"
  by (cases reply rule: upstream_failed.cases)
     (auto simp add: refresher_fetchTvlData_try_def split: sum.splits)

lemma failed_price_empty:
  "upstream_failed reply \<Longrightarrow> (case refresher_fetchPriceData_try env reply of Inr p \<Rightarrow> p | Inl e \<Rightarrow> []) = []"
  by (cases reply rule: upstream_failed.cases)
     (auto simp add: refresher_fetchPriceData_try_def split: sum.splits)

text \<open>What one pass of the loop over the mapping leaves behind.\<close>

lemma refresher_loop_run:
  "\<exists>T P w1.
     refresher_loop env refresher_BLOCKCHAIN_MAPPING ([], [], w) = (T, P, w1) \<and>
     map fst T = chain_names \<and> map fst P = chain_names \<and>
     (\<forall>name i w0. (name, i) \<in> set refresher_BLOCKCHAIN_MAPPING \<longrightarrow>
        map_of T name = Some (fst (refresher_fetchTvlData env (defillama i) w0)) \<and>
        map_of P name = Some (fst (refresher_fetchPriceData env (coingecko i) w0))) \<and>
     kv_blockchain_data w1 = kv_blockchain_data w \<and>
     kv_last_updated w1 = kv_last_updated w \<and>
     fetched w1 = fetched w @ upstream_calls refresher_BLOCKCHAIN_MAPPING \<and>
     clock w + 18000 \<le> clock w1"
proof -
  obtain T P w1 where run: "refresher_loop env refresher_BLOCKCHAIN_MAPPING ([], [], w) = (T, P, w1)"
    by (metis prod_cases3)
  have keys: "map fst T = chain_names \<and> map fst P = chain_names"
    using refresher_loop_keys [OF run mapping_distinct] by (simp add: mapping_names)
  have vals: "map_of T name = Some (fst (refresher_fetchTvlData env (defillama i) w0)) \<and>
        map_of P name = Some (fst (refresher_fetchPriceData env (coingecko i) w0))"
    if "(name, i) \<in> set refresher_BLOCKCHAIN_MAPPING" for name i w0
  proof -
    from that mapping_distinct have "map_of refresher_BLOCKCHAIN_MAPPING name = Some i"
      by simp
    with refresher_loop_values [OF run mapping_distinct, of name w0] show ?thesis by simp
  qed
  have len: "length refresher_BLOCKCHAIN_MAPPING = 9"
    by (simp add: refresher_BLOCKCHAIN_MAPPING_def)
  from refresher_loop_world [OF run] len have world:
    "kv_blockchain_data w1 = kv_blockchain_data w \<and> kv_last_updated w1 = kv_last_updated w \<and>
     fetched w1 = fetched w @ upstream_calls refresher_BLOCKCHAIN_MAPPING \<and>
     clock w + 18000 \<le> clock w1"
    by simp
  from run keys vals world show ?thesis by blast
qed

lemma refresher_handler_authorized:
  "authorized req \<Longrightarrow>
     refresher_loop env refresher_BLOCKCHAIN_MAPPING ([], [], w) = (T, P, w1) \<Longrightarrow>
     refresher_handler env req w =
       (Response 200 (SuccessBody True (ISO (clock w1))),
        w1\<lparr>kv_blockchain_data := Some \<lparr>tvl_data = T, price_data = P\<rparr>,
           kv_last_updated := Some (ISO (clock w1))\<rparr>)"
  by (auto simp add: refresher_handler_def authorized_def now_iso_def Let_def split: option.splits)

lemma refresher_handler_unauthorized:
  "\<not> authorized req \<Longrightarrow>
     refresher_handler env req w = (Response 401 (ErrorBody ''Unauthorized''), w)"
  by (auto simp add: refresher_handler_def authorized_def split: option.splits)

lemma reader_refresh_run:
  "refresher_loop env refresher_BLOCKCHAIN_MAPPING ([], [], w) = (T, P, w1) \<Longrightarrow>
     reader_refresh env w =
       (Response 200 (DataBody \<lparr>tvl_data = T, price_data = P\<rparr> (ISO (clock w1))),
        w1\<lparr>kv_blockchain_data := Some \<lparr>tvl_data = T, price_data = P\<rparr>,
           kv_last_updated := Some (ISO (clock w1))\<rparr>)"
  by (simp add: reader_refresh_def reader_loop_eq reader_mapping_eq now_iso_def Let_def)

lemma reader_handler_miss: "\<not> cache_fresh w \<Longrightarrow> reader_handler env w = reader_refresh env w"
  by (auto simp add: reader_handler_def cache_fresh_def split: option.splits)

lemma reader_handler_hit:
  "kv_blockchain_data w = Some d \<Longrightarrow> kv_last_updated w = Some lu \<Longrightarrow>
     clock w - time_of lu < 3600000 \<Longrightarrow>
     reader_handler env w = (Response 200 (DataBody d lu), w)"
  by (simp add: reader_handler_def)


lemma refresher_fetchTvlData_indep:
  "fst (refresher_fetchTvlData env blockchainId w) = fst (refresher_fetchTvlData env blockchainId w')"
  by (simp add: refresher_fetchTvlData_fst)

lemma refresher_fetchPriceData_indep:
  "fst (refresher_fetchPriceData env coinId w) = fst (refresher_fetchPriceData env coinId w')"
  by (simp add: refresher_fetchPriceData_fst)

lemma refresher_loop_data_indep:
  "refresher_loop env m (T, P, w) = (T1, P1, w1) \<Longrightarrow>
   refresher_loop env m (T, P, w') = (T2, P2, w2) \<Longrightarrow> T1 = T2 \<and> P1 = P2"
proof (induction m arbitrary: T P w w')
  case Nil
  then show ?case by simp
next
  case (Cons a m)
  obtain k i where a: "a = (k, i)" by (cases a)
  let ?T = "AList.update k (fst (refresher_fetchTvlData env (defillama i) w)) T"
  let ?P = "AList.update k (fst (refresher_fetchPriceData env (coingecko i) w)) P"
  from Cons.prems(1) obtain v where r1: "refresher_loop env m (?T, ?P, v) = (T1, P1, w1)"
    unfolding a refresher_loop_Cons
    using refresher_fetchPriceData_indep [of env "coingecko i" _ w] by metis
  from Cons.prems(2) obtain v' where r2: "refresher_loop env m (?T, ?P, v') = (T2, P2, w2)"
    unfolding a refresher_loop_Cons
    using refresher_fetchPriceData_indep [of env "coingecko i" _ w]
      refresher_fetchTvlData_indep [of env "defillama i" w' w] by metis
  from Cons.IH [OF r1 r2] show ?case .
qed

lemma refresher_stored_dataset:
  assumes "authorized req"
  shows "\<exists>d. kv_blockchain_data (snd (refresher_handler env req w)) = Some d \<and>
    map fst (tvl_data d) = chain_names \<and> map fst (price_data d) = chain_names \<and>
    (\<forall>name i w0. (name, i) \<in> set refresher_BLOCKCHAIN_MAPPING \<longrightarrow>
        map_of (tvl_data d) name = Some (fst (refresher_fetchTvlData env (defillama i) w0)) \<and>
        map_of (price_data d) name = Some (fst (refresher_fetchPriceData env (coingecko i) w0)))"
proof -
  from refresher_loop_run [of env w] obtain T P w1 where run:
    "refresher_loop env refresher_BLOCKCHAIN_MAPPING ([], [], w) = (T, P, w1)"
    and keys: "map fst T = chain_names" "map fst P = chain_names"
    and vals: "\<forall>name i w0. (name, i) \<in> set refresher_BLOCKCHAIN_MAPPING \<longrightarrow>
        map_of T name = Some (fst (refresher_fetchTvlData env (defillama i) w0)) \<and>
        map_of P name = Some (fst (refresher_fetchPriceData env (coingecko i) w0))"
    by blast
  show ?thesis
    using keys vals
    by (intro exI [of _ "\<lparr>tvl_data = T, price_data = P\<rparr>"])
       (simp add: refresher_handler_authorized [OF assms run])
qed

lemma reader_stored_dataset:
  assumes "\<not> cache_fresh w"
  shows "\<exists>d ts. fst (reader_handler env w) = Response 200 (DataBody d ts) \<and>
    kv_blockchain_data (snd (reader_handler env w)) = Some d \<and>
    map fst (tvl_data d) = chain_names \<and> map fst (price_data d) = chain_names \<and>
    (\<forall>name i w0. (name, i) \<in> set reader_BLOCKCHAIN_MAPPING \<longrightarrow>
        map_of (tvl_data d) name = Some (fst (reader_fetchTvlData env (defillama i) w0)) \<and>
        map_of (price_data d) name = Some (fst (reader_fetchPriceData env (coingecko i) w0)))"
proof -
  from refresher_loop_run [of env w] obtain T P w1 where run:
    "refresher_loop env refresher_BLOCKCHAIN_MAPPING ([], [], w) = (T, P, w1)"
    and keys: "map fst T = chain_names" "map fst P = chain_names"
    and vals: "\<forall>name i w0. (name, i) \<in> set refresher_BLOCKCHAIN_MAPPING \<longrightarrow>
        map_of T name = Some (fst (refresher_fetchTvlData env (defillama i) w0)) \<and>
        map_of P name = Some (fst (refresher_fetchPriceData env (coingecko i) w0))"
    by blast
  show ?thesis
    using keys vals
    by (intro exI [of _ "\<lparr>tvl_data = T, price_data = P\<rparr>"] exI [of _ "ISO (clock w1)"])
       (simp add: reader_handler_miss [OF assms] reader_refresh_run [OF run]
          reader_mapping_eq reader_fetchTvlData_eq reader_fetchPriceData_eq)
qed

lemma failed_tvl_fetch:
  "upstream_failed (upstream env (tvl_url blockchainId)) \<Longrightarrow>
     fst (refresher_fetchTvlData env blockchainId w) = []"
  by (simp add: refresher_fetchTvlData_fst failed_tvl_empty)

lemma failed_price_fetch:
  "upstream_failed (upstream env (price_url coinId)) \<Longrightarrow>
     fst (refresher_fetchPriceData env coinId w) = []"
  by (simp add: refresher_fetchPriceData_fst failed_price_empty)

subsection \<open>Facts about the sample inputs\<close>

lemma sei_in_refresher_mapping:
  "(''Sei'', \<lparr>defillama = ''sei'', coingecko = ''sei-network''\<rparr>) \<in> set refresher_BLOCKCHAIN_MAPPING"
  by (simp add: refresher_BLOCKCHAIN_MAPPING_def)

lemma aptos_in_refresher_mapping:
  "(''Aptos'', \<lparr>defillama = ''aptos'', coingecko = ''aptos''\<rparr>) \<in> set refresher_BLOCKCHAIN_MAPPING"
  by (simp add: refresher_BLOCKCHAIN_MAPPING_def)

lemma sample_env_sei: "upstream sample_env (tvl_url ''sei'') = Reply 500 Unparseable"
  by (simp add: sample_env_def tvl_url_def price_url_def)

lemma sample_env_sei_network: "upstream sample_env (price_url ''sei-network'') = Failed"
  by (simp add: sample_env_def tvl_url_def price_url_def)

lemma sample_env_foo: "upstream sample_env (tvl_url ''foo'') = Reply 500 Unparseable"
  by (simp add: sample_env_def tvl_url_def price_url_def)

lemma sample_env_price_foo: "upstream sample_env (price_url ''foo'') = Failed"
  by (simp add: sample_env_def tvl_url_def price_url_def)

lemma bearer_request_authorized: "authorized bearer_request"
  by (simp add: authorized_def bearer_request_def)

lemma empty_world_not_fresh: "\<not> cache_fresh empty_world"
  by (simp add: cache_fresh_def empty_world_def)

lemma sample_env_aptos:
  "upstream sample_env (tvl_url ''aptos'') =
     Reply 200 (Parsed (JArr
               [JObj [(''date'', JNum 1700000000), (''tvl'', JNum 5)],
                JObj [(''date'', JNum 1700086400), (''tvl'', JNum 7)]]))"
  by (simp add: sample_env_def tvl_url_def price_url_def)

lemma sample_env_flow:
  "upstream sample_env (tvl_url ''flow'') =
     Reply 200 (Parsed (JArr [JObj [(''date'', JNum 8700000000000), (''tvl'', JNum 5)]]))"
  by (simp add: sample_env_def tvl_url_def price_url_def)


lemma sample_env_price_flow:
  "upstream sample_env (price_url ''flow'') = Reply 200 (Parsed (JObj [(''status'', JStr ''ok'')]))"
  by (simp add: sample_env_def tvl_url_def price_url_def)

lemma sample_env_price_optimism:
  "upstream sample_env (price_url ''optimism'') = Reply 200 (Parsed (JObj [(''prices'', JNull)]))"
  by (simp add: sample_env_def tvl_url_def price_url_def)

lemma sample_aptos_series:
  "fst (refresher_fetchTvlData sample_env ''aptos'' w) =
     [\<lparr>tp_date = ISO 1700000000000, tp_tvl = Some (JNum 5)\<rparr>,
      \<lparr>tp_date = ISO 1700086400000, tp_tvl = Some (JNum 7)\<rparr>]"
  by (simp add: refresher_fetchTvlData_fst sample_env_aptos refresher_fetchTvlData_try_def
        refresher_tvl_item_def toISOString_def TimeClip_def js_multiply_def exact_double_def
        is_integer_def)

lemma sample_flow_series:
  "refresher_fetchTvlData_try sample_env (upstream sample_env (tvl_url ''flow'')) = Inl RangeError"
  by (simp add: sample_env_flow refresher_fetchTvlData_try_def
        refresher_tvl_item_def toISOString_def TimeClip_def js_multiply_def exact_double_def
        is_integer_def)

subsection \<open>Well-formed upstream bodies\<close>









subsection \<open>The store in every run\<close>

lemma reader_handler_consistent:
  assumes "store_consistent w"
  shows "store_consistent (snd (reader_handler env w))"
proof (cases "cache_fresh w")
  case True
  then obtain d lu where "kv_blockchain_data w = Some d" "kv_last_updated w = Some lu"
    "clock w - time_of lu < 3600000"
    by (auto simp add: cache_fresh_def split: option.splits)
  from reader_handler_hit [OF this] assms show ?thesis by simp
next
  case False
  obtain T P w1 where run:
    "refresher_loop env refresher_BLOCKCHAIN_MAPPING ([], [], w) = (T, P, w1)"
    by (metis prod_cases3)
  show ?thesis
    by (simp add: reader_handler_miss [OF False] reader_refresh_run [OF run]
          store_consistent_def)
qed

lemma refresher_handler_consistent:
  assumes "store_consistent w"
  shows "store_consistent (snd (refresher_handler env req w))"
proof (cases "authorized req")
  case True
  obtain T P w1 where run:
    "refresher_loop env refresher_BLOCKCHAIN_MAPPING ([], [], w) = (T, P, w1)"
    by (metis prod_cases3)
  show ?thesis
    by (simp add: refresher_handler_authorized [OF True run] store_consistent_def)
next
  case False
  from refresher_handler_unauthorized [OF this] assms show ?thesis by simp
qed

lemma reachable_store_consistent: "reachable w \<Longrightarrow> store_consistent w"
proof (induction rule: reachable.induct)
  case (start t)
  show ?case by (simp add: store_consistent_def)
next
  case (read w env)
  then show ?case by (simp add: reader_handler_consistent)
next
  case (refresh w env req)
  then show ?case by (simp add: refresher_handler_consistent)
next
  case (wait w ms)
  then show ?case
    by (auto simp add: store_consistent_def delay_def split: option.splits)
qed

lemma reachable_miss_is_empty_or_stale:
  assumes "reachable w" and "\<not> cache_fresh w"
  shows "(kv_blockchain_data w = None \<and> kv_last_updated w = None) \<or>
         (\<exists>lu. kv_last_updated w = Some lu \<and> 3600000 \<le> clock w - time_of lu)"
  using reachable_store_consistent [OF assms(1)] assms(2)
  by (auto simp add: store_consistent_def cache_fresh_def split: option.splits)

section \<open>The claims about the endpoints\<close>

text \<open>
  C1. Every run of the refresh routine, in the refresh endpoint (an authorized request)
  and in the read endpoint (a read that misses the cache), whatever the upstream
  answers, stores a Dataset whose \<open>tvl_data\<close> and \<open>price_data\<close> have exactly the nine
  chain names of the mapping as keys, each once; a chain whose fetch failed has the empty
  sequence under its key.
\<close>

theorem refresh_dataset_has_every_chain:
  "(authorized req \<longrightarrow>
      (\<exists>d. kv_blockchain_data (snd (refresher_handler env req w)) = Some d \<and>
           map fst (tvl_data d) = chain_names \<and>
           map fst (price_data d) = chain_names \<and>
           (\<forall>(name, i) \<in> set refresher_BLOCKCHAIN_MAPPING.
              (upstream_failed (upstream env (tvl_url (defillama i))) \<longrightarrow>
                 map_of (tvl_data d) name = Some []) \<and>
              (upstream_failed (upstream env (price_url (coingecko i))) \<longrightarrow>
                 map_of (price_data d) name = Some [])))) \<and>
   (\<not> cache_fresh w \<longrightarrow>
      (\<exists>d ts. fst (reader_handler env w) = Response 200 (DataBody d ts) \<and>
           kv_blockchain_data (snd (reader_handler env w)) = Some d \<and>
           map fst (tvl_data d) = chain_names \<and>
           map fst (price_data d) = chain_names \<and>
           (\<forall>(name, i) \<in> set reader_BLOCKCHAIN_MAPPING.
              (upstream_failed (upstream env (tvl_url (defillama i))) \<longrightarrow>
                 map_of (tvl_data d) name = Some []) \<and>
              (upstream_failed (upstream env (price_url (coingecko i))) \<longrightarrow>
                 map_of (price_data d) name = Some [])))) \<and>
   map fst refresher_BLOCKCHAIN_MAPPING = chain_names \<and>
   map fst reader_BLOCKCHAIN_MAPPING = chain_names \<and>
   length chain_names = 9 \<and> distinct chain_names"
proof (intro conjI impI)
  assume auth: "authorized req"
  from refresher_stored_dataset [OF auth, of env w]
  obtain d where d: "kv_blockchain_data (snd (refresher_handler env req w)) = Some d"
    "map fst (tvl_data d) = chain_names" "map fst (price_data d) = chain_names"
    and vals: "\<And>name i. (name, i) \<in> set refresher_BLOCKCHAIN_MAPPING \<Longrightarrow>
        map_of (tvl_data d) name = Some (fst (refresher_fetchTvlData env (defillama i) w)) \<and>
        map_of (price_data d) name = Some (fst (refresher_fetchPriceData env (coingecko i) w))"
    by blast
  show "\<exists>d. kv_blockchain_data (snd (refresher_handler env req w)) = Some d \<and>
           map fst (tvl_data d) = chain_names \<and>
           map fst (price_data d) = chain_names \<and>
           (\<forall>(name, i) \<in> set refresher_BLOCKCHAIN_MAPPING.
              (upstream_failed (upstream env (tvl_url (defillama i))) \<longrightarrow>
                 map_of (tvl_data d) name = Some []) \<and>
              (upstream_failed (upstream env (price_url (coingecko i))) \<longrightarrow>
                 map_of (price_data d) name = Some []))"
    using d vals by (intro exI [of _ d]) (auto simp add: failed_tvl_fetch failed_price_fetch)
next
  assume miss: "\<not> cache_fresh w"
  from reader_stored_dataset [OF miss, of env]
  obtain d ts where d: "fst (reader_handler env w) = Response 200 (DataBody d ts)"
    "kv_blockchain_data (snd (reader_handler env w)) = Some d"
    "map fst (tvl_data d) = chain_names" "map fst (price_data d) = chain_names"
    and vals: "\<And>name i. (name, i) \<in> set reader_BLOCKCHAIN_MAPPING \<Longrightarrow>
        map_of (tvl_data d) name = Some (fst (reader_fetchTvlData env (defillama i) w)) \<and>
        map_of (price_data d) name = Some (fst (reader_fetchPriceData env (coingecko i) w))"
    by blast
  show "\<exists>d ts. fst (reader_handler env w) = Response 200 (DataBody d ts) \<and>
           kv_blockchain_data (snd (reader_handler env w)) = Some d \<and>
           map fst (tvl_data d) = chain_names \<and>
           map fst (price_data d) = chain_names \<and>
           (\<forall>(name, i) \<in> set reader_BLOCKCHAIN_MAPPING.
              (upstream_failed (upstream env (tvl_url (defillama i))) \<longrightarrow>
                 map_of (tvl_data d) name = Some []) \<and>
              (upstream_failed (upstream env (price_url (coingecko i))) \<longrightarrow>
                 map_of (price_data d) name = Some []))"
    using d vals
    by (intro exI [of _ d] exI [of _ ts])
       (auto simp add: failed_tvl_fetch failed_price_fetch reader_fetchTvlData_eq
          reader_fetchPriceData_eq)
qed (simp_all add: mapping_names reader_mapping_eq chain_names_length chain_names_distinct)

text \<open>The statement of C1 at a sample input.\<close>

theorem refresh_dataset_has_every_chain_witness:
  "authorized bearer_request \<and> \<not> cache_fresh empty_world \<and>
   upstream_failed (upstream sample_env (tvl_url ''sei'')) \<and>
   upstream_failed (upstream sample_env (price_url ''sei-network'')) \<and>
   (\<exists>d. kv_blockchain_data (snd (refresher_handler sample_env bearer_request empty_world)) = Some d \<and>
        map fst (tvl_data d) = chain_names \<and> map fst (price_data d) = chain_names \<and>
        map_of (tvl_data d) ''Sei'' = Some [] \<and> map_of (price_data d) ''Sei'' = Some []) \<and>
   (\<exists>d. kv_blockchain_data (snd (reader_handler sample_env empty_world)) = Some d \<and>
        map fst (tvl_data d) = chain_names \<and> map fst (price_data d) = chain_names \<and>
        map_of (tvl_data d) ''Sei'' = Some [] \<and> map_of (price_data d) ''Sei'' = Some [])"
proof -
  note inst = refresh_dataset_has_every_chain [of bearer_request sample_env empty_world]
  have f1: "upstream_failed (upstream sample_env (tvl_url ''sei''))"
    by (simp add: sample_env_sei)
  have f2: "upstream_failed (upstream sample_env (price_url ''sei-network''))"
    by (simp add: sample_env_sei_network)
  have mem: "(''Sei'', \<lparr>defillama = ''sei'', coingecko = ''sei-network''\<rparr>)
      \<in> set reader_BLOCKCHAIN_MAPPING"
    by (simp add: reader_BLOCKCHAIN_MAPPING_def)
  from inst bearer_request_authorized obtain d where d:
    "kv_blockchain_data (snd (refresher_handler sample_env bearer_request empty_world)) = Some d"
    "map fst (tvl_data d) = chain_names" "map fst (price_data d) = chain_names"
    "\<forall>(name, i) \<in> set refresher_BLOCKCHAIN_MAPPING.
        (upstream_failed (upstream sample_env (tvl_url (defillama i))) \<longrightarrow>
           map_of (tvl_data d) name = Some []) \<and>
        (upstream_failed (upstream sample_env (price_url (coingecko i))) \<longrightarrow>
           map_of (price_data d) name = Some [])"
    by blast
  from bspec [OF d(4) sei_in_refresher_mapping] f1 f2
  have e: "map_of (tvl_data d) ''Sei'' = Some [] \<and> map_of (price_data d) ''Sei'' = Some []"
    by simp
  from inst empty_world_not_fresh obtain d' ts where d':
    "kv_blockchain_data (snd (reader_handler sample_env empty_world)) = Some d'"
    "map fst (tvl_data d') = chain_names" "map fst (price_data d') = chain_names"
    "\<forall>(name, i) \<in> set reader_BLOCKCHAIN_MAPPING.
        (upstream_failed (upstream sample_env (tvl_url (defillama i))) \<longrightarrow>
           map_of (tvl_data d') name = Some []) \<and>
        (upstream_failed (upstream sample_env (price_url (coingecko i))) \<longrightarrow>
           map_of (price_data d') name = Some [])"
    by blast
  from bspec [OF d'(4) mem] f1 f2
  have e': "map_of (tvl_data d') ''Sei'' = Some [] \<and> map_of (price_data d') ''Sei'' = Some []"
    by simp
  from d e d' e' bearer_request_authorized empty_world_not_fresh f1 f2 show ?thesis
    by blast
qed

text \<open>
  C2. When the store holds a dataset and a timestamp and less than one hour
  (3600000 ms) has passed since that timestamp, the read endpoint answers 200 with the
  stored dataset and timestamp and leaves the state as it was: no URL is fetched and
  neither key of the store is written.
\<close>

theorem cache_hit_returns_stored:
  assumes "kv_blockchain_data w = Some d"
    and "kv_last_updated w = Some lu"
    and "clock w - time_of lu < 3600000"
  shows "reader_handler env w = (Response 200 (DataBody d lu), w) \<and>
         fetched (snd (reader_handler env w)) = fetched w \<and>
         kv_blockchain_data (snd (reader_handler env w)) = kv_blockchain_data w \<and>
         kv_last_updated (snd (reader_handler env w)) = kv_last_updated w"
  using reader_handler_hit [OF assms] by simp

text \<open>The statement of C2 at a sample input.\<close>

theorem cache_hit_returns_stored_witness:
  "kv_blockchain_data fresh_world = Some sample_dataset \<and>
   kv_last_updated fresh_world = Some (ISO 1711841400000) \<and>
   clock fresh_world - time_of (ISO 1711841400000) < 3600000 \<and>
   reader_handler sample_env fresh_world =
     (Response 200 (DataBody sample_dataset (ISO 1711841400000)), fresh_world) \<and>
   fetched (snd (reader_handler sample_env fresh_world)) = []"
proof -
  have h1: "kv_blockchain_data fresh_world = Some sample_dataset"
    by (simp add: fresh_world_def)
  have h2: "kv_last_updated fresh_world = Some (ISO 1711841400000)"
    by (simp add: fresh_world_def)
  have h3: "clock fresh_world - time_of (ISO 1711841400000) < 3600000"
    by (simp add: fresh_world_def)
  have h4: "fetched fresh_world = []"
    by (simp add: fresh_world_def)
  show ?thesis
    using cache_hit_returns_stored [OF h1 h2 h3, of sample_env] h1 h2 h3 h4 by simp
qed



text \<open>
  C4. A refresh request whose Authorization header is absent or does not start with
  \<open>Bearer \<close> is answered 401 with the body \<open>{error: "Unauthorized"}\<close>; the state is
  unchanged: no URL is fetched and the store is not written.
\<close>

theorem unauthorized_refresh_rejected:
  assumes "authorization req = None \<or>
           (\<exists>h. authorization req = Some h \<and> \<not> prefix ''Bearer '' h)"
  shows "refresher_handler env req w = (Response 401 (ErrorBody ''Unauthorized''), w) \<and>
         fetched (snd (refresher_handler env req w)) = fetched w \<and>
         kv_blockchain_data (snd (refresher_handler env req w)) = kv_blockchain_data w \<and>
         kv_last_updated (snd (refresher_handler env req w)) = kv_last_updated w"
proof -
  from assms have "\<not> authorized req"
    by (auto simp add: authorized_def)
  from refresher_handler_unauthorized [OF this] show ?thesis by simp
qed

text \<open>The statement of C4 at a sample input.\<close>

theorem unauthorized_refresh_rejected_witness:
  "authorization anonymous_request = None \<and>
   authorization basic_request = Some ''Basic dXNlcjpwdw=='' \<and>
   \<not> prefix ''Bearer '' ''Basic dXNlcjpwdw=='' \<and>
   refresher_handler sample_env anonymous_request stale_world =
     (Response 401 (ErrorBody ''Unauthorized''), stale_world) \<and>
   refresher_handler sample_env basic_request stale_world =
     (Response 401 (ErrorBody ''Unauthorized''), stale_world)"
proof -
  have h1: "authorization anonymous_request = None"
    by (simp add: anonymous_request_def)
  have h2: "authorization basic_request = Some ''Basic dXNlcjpwdw==''"
    by (simp add: basic_request_def)
  have h3: "\<not> prefix ''Bearer '' ''Basic dXNlcjpwdw==''"
    by simp
  from h1 have a1: "authorization anonymous_request = None \<or>
      (\<exists>h. authorization anonymous_request = Some h \<and> \<not> prefix ''Bearer '' h)"
    by blast
  from h2 h3 have a2: "authorization basic_request = None \<or>
      (\<exists>h. authorization basic_request = Some h \<and> \<not> prefix ''Bearer '' h)"
    by blast
  show ?thesis
    using unauthorized_refresh_rejected [OF a1, of sample_env stale_world]
      unauthorized_refresh_rejected [OF a2, of sample_env stale_world] h1 h2 h3
    by simp
qed

text \<open>
  C5. For every identifier, when the upstream call is rejected, answers with a status
  other than 200, or answers 200 with a body that is not JSON, the TVL fetcher and the
  price fetcher of both endpoints return the empty sequence; so they do for any
  exception raised inside their \<open>try\<close> block. The refresh around them completes: the
  stored Dataset holds, for every chain of the mapping, what the fetchers return for that
  chain's own identifiers, whatever happened to the other chains.
\<close>

theorem failed_upstream_gives_empty_series:
  "(upstream_failed (upstream env (tvl_url blockchainId)) \<longrightarrow>
      fst (refresher_fetchTvlData env blockchainId w) = [] \<and>
      fst (reader_fetchTvlData env blockchainId w) = []) \<and>
   (upstream_failed (upstream env (price_url coinId)) \<longrightarrow>
      fst (refresher_fetchPriceData env coinId w) = [] \<and>
      fst (reader_fetchPriceData env coinId w) = []) \<and>
   (\<forall>e. refresher_fetchTvlData_try env (upstream env (tvl_url blockchainId)) = Inl e \<longrightarrow>
      fst (refresher_fetchTvlData env blockchainId w) = [] \<and>
      fst (reader_fetchTvlData env blockchainId w) = []) \<and>
   (\<forall>e. refresher_fetchPriceData_try env (upstream env (price_url coinId)) = Inl e \<longrightarrow>
      fst (refresher_fetchPriceData env coinId w) = [] \<and>
      fst (reader_fetchPriceData env coinId w) = []) \<and>
   (authorized req \<longrightarrow>
      (\<exists>d. kv_blockchain_data (snd (refresher_handler env req w)) = Some d \<and>
           (\<forall>(name, i) \<in> set refresher_BLOCKCHAIN_MAPPING.
              map_of (tvl_data d) name =
                Some (fst (refresher_fetchTvlData env (defillama i) w)) \<and>
              map_of (price_data d) name =
                Some (fst (refresher_fetchPriceData env (coingecko i) w))))) \<and>
   (\<not> cache_fresh w \<longrightarrow>
      (\<exists>d. kv_blockchain_data (snd (reader_handler env w)) = Some d \<and>
           (\<forall>(name, i) \<in> set reader_BLOCKCHAIN_MAPPING.
              map_of (tvl_data d) name =
                Some (fst (reader_fetchTvlData env (defillama i) w)) \<and>
              map_of (price_data d) name =
                Some (fst (reader_fetchPriceData env (coingecko i) w)))))"
proof (intro conjI impI allI)
  assume "authorized req"
  from refresher_stored_dataset [OF this, of env w]
  show "\<exists>d. kv_blockchain_data (snd (refresher_handler env req w)) = Some d \<and>
           (\<forall>(name, i) \<in> set refresher_BLOCKCHAIN_MAPPING.
              map_of (tvl_data d) name =
                Some (fst (refresher_fetchTvlData env (defillama i) w)) \<and>
              map_of (price_data d) name =
                Some (fst (refresher_fetchPriceData env (coingecko i) w)))"
    by fast
next
  assume "\<not> cache_fresh w"
  from reader_stored_dataset [OF this, of env]
  show "\<exists>d. kv_blockchain_data (snd (reader_handler env w)) = Some d \<and>
           (\<forall>(name, i) \<in> set reader_BLOCKCHAIN_MAPPING.
              map_of (tvl_data d) name =
                Some (fst (reader_fetchTvlData env (defillama i) w)) \<and>
              map_of (price_data d) name =
                Some (fst (reader_fetchPriceData env (coingecko i) w)))"
    by fast
qed (simp_all add: failed_tvl_empty failed_price_empty reader_fetchTvlData_eq
       reader_fetchPriceData_eq refresher_fetchTvlData_fst refresher_fetchPriceData_fst)

text \<open>The statement of C5 at a sample input.\<close>

theorem failed_upstream_gives_empty_series_witness:
  "upstream_failed (upstream sample_env (tvl_url ''foo'')) \<and>
   upstream_failed (upstream sample_env (price_url ''foo'')) \<and>
   refresher_fetchTvlData_try sample_env (upstream sample_env (tvl_url ''flow'')) = Inl RangeError \<and>
   authorized bearer_request \<and> \<not> cache_fresh empty_world \<and>
   fst (refresher_fetchTvlData sample_env ''foo'' empty_world) = [] \<and>
   fst (reader_fetchTvlData sample_env ''foo'' empty_world) = [] \<and>
   fst (refresher_fetchPriceData sample_env ''foo'' empty_world) = [] \<and>
   fst (reader_fetchPriceData sample_env ''foo'' empty_world) = [] \<and>
   fst (refresher_fetchTvlData sample_env ''flow'' empty_world) = [] \<and>
   (\<exists>d. kv_blockchain_data (snd (refresher_handler sample_env bearer_request empty_world)) = Some d \<and>
        map_of (tvl_data d) ''Sei'' = Some [] \<and>
        map_of (tvl_data d) ''Aptos'' =
          Some [\<lparr>tp_date = ISO 1700000000000, tp_tvl = Some (JNum 5)\<rparr>,
                \<lparr>tp_date = ISO 1700086400000, tp_tvl = Some (JNum 7)\<rparr>])"
proof -
  have f1: "upstream_failed (upstream sample_env (tvl_url ''foo''))"
    by (simp add: sample_env_foo)
  have f2: "upstream_failed (upstream sample_env (price_url ''foo''))"
    by (simp add: sample_env_price_foo)
  have f3: "upstream_failed (upstream sample_env (tvl_url ''sei''))"
    by (simp add: sample_env_sei)
  note foo = failed_upstream_gives_empty_series
    [of sample_env "''foo''" empty_world "''foo''" bearer_request]
  note flow = failed_upstream_gives_empty_series
    [of sample_env "''flow''" empty_world "''flow''" bearer_request]
  from foo f1 f2 have a:
    "fst (refresher_fetchTvlData sample_env ''foo'' empty_world) = []"
    "fst (reader_fetchTvlData sample_env ''foo'' empty_world) = []"
    "fst (refresher_fetchPriceData sample_env ''foo'' empty_world) = []"
    "fst (reader_fetchPriceData sample_env ''foo'' empty_world) = []"
    by blast+
  from flow sample_flow_series have b:
    "fst (refresher_fetchTvlData sample_env ''flow'' empty_world) = []"
    by blast
  from foo bearer_request_authorized obtain d where d:
    "kv_blockchain_data (snd (refresher_handler sample_env bearer_request empty_world)) = Some d"
    "\<forall>(name, i) \<in> set refresher_BLOCKCHAIN_MAPPING.
        map_of (tvl_data d) name =
          Some (fst (refresher_fetchTvlData sample_env (defillama i) empty_world)) \<and>
        map_of (price_data d) name =
          Some (fst (refresher_fetchPriceData sample_env (coingecko i) empty_world))"
    by blast
  from bspec [OF d(2) sei_in_refresher_mapping] f3
  have sei: "map_of (tvl_data d) ''Sei'' = Some []"
    by (simp add: failed_tvl_fetch)
  from bspec [OF d(2) aptos_in_refresher_mapping]
  have aptos: "map_of (tvl_data d) ''Aptos'' =
          Some [\<lparr>tp_date = ISO 1700000000000, tp_tvl = Some (JNum 5)\<rparr>,
                \<lparr>tp_date = ISO 1700086400000, tp_tvl = Some (JNum 7)\<rparr>]"
    by (simp add: sample_aptos_series)
  from f1 f2 sample_flow_series bearer_request_authorized empty_world_not_fresh a b d(1) sei aptos
  show ?thesis by blast
qed




text \<open>
  C9. The fetch-and-aggregate logic of the two endpoints is the same: their mappings and
  fetchers are equal, and for the same upstream an authorized refresh and a read that
  misses the cache, started in the same state, end in the same state (the same Dataset
  and timestamp stored, the same requests made) and report the same timestamp. The
  Dataset depends on the upstream only: a read that misses in any other state stores the
  same Dataset. The endpoints differ in when they run the aggregation and in the body
  of their answer.
\<close>

theorem endpoints_aggregate_alike:
  assumes "authorized req" and "\<not> cache_fresh w"
  shows "snd (reader_handler env w) = snd (refresher_handler env req w) \<and>
         (\<exists>d ts. fst (reader_handler env w) = Response 200 (DataBody d ts) \<and>
                 fst (refresher_handler env req w) = Response 200 (SuccessBody True ts) \<and>
                 kv_blockchain_data (snd (refresher_handler env req w)) = Some d \<and>
                 kv_last_updated (snd (refresher_handler env req w)) = Some ts) \<and>
         (\<not> cache_fresh w' \<longrightarrow>
            kv_blockchain_data (snd (reader_handler env w')) =
            kv_blockchain_data (snd (refresher_handler env req w))) \<and>
         reader_BLOCKCHAIN_MAPPING = refresher_BLOCKCHAIN_MAPPING \<and>
         reader_fetchTvlData = refresher_fetchTvlData \<and>
         reader_fetchPriceData = refresher_fetchPriceData"
proof -
  obtain T P w1 where run:
    "refresher_loop env refresher_BLOCKCHAIN_MAPPING ([], [], w) = (T, P, w1)"
    by (metis prod_cases3)
  obtain T' P' w1' where run':
    "refresher_loop env refresher_BLOCKCHAIN_MAPPING ([], [], w') = (T', P', w1')"
    by (metis prod_cases3)
  from refresher_loop_data_indep [OF run run'] have same: "T' = T" "P' = P" by simp_all
  have rd: "reader_handler env w = reader_refresh env w"
    by (rule reader_handler_miss [OF assms(2)])
  have other: "kv_blockchain_data (snd (reader_handler env w')) =
      kv_blockchain_data (snd (refresher_handler env req w))" if "\<not> cache_fresh w'"
    using reader_handler_miss [OF that] reader_refresh_run [OF run']
      refresher_handler_authorized [OF assms(1) run] same by simp
  show ?thesis
    using other
    by (simp add: rd reader_refresh_run [OF run] refresher_handler_authorized [OF assms(1) run]
          reader_mapping_eq reader_fetchTvlData_eq reader_fetchPriceData_eq)
qed

text \<open>The statement of C9 at a sample input.\<close>

theorem endpoints_aggregate_alike_witness:
  "authorized bearer_request \<and> \<not> cache_fresh stale_world \<and> \<not> cache_fresh empty_world \<and>
   snd (reader_handler sample_env stale_world) =
     snd (refresher_handler sample_env bearer_request stale_world) \<and>
   kv_blockchain_data (snd (reader_handler sample_env empty_world)) =
     kv_blockchain_data (snd (refresher_handler sample_env bearer_request stale_world))"
proof -
  have h1: "authorized bearer_request"
    by (simp add: authorized_def bearer_request_def)
  have h2: "\<not> cache_fresh stale_world"
    by (simp add: cache_fresh_def stale_world_def)
  have h3: "\<not> cache_fresh empty_world"
    by (simp add: cache_fresh_def empty_world_def)
  show ?thesis
    using endpoints_aggregate_alike [OF h1 h2, of sample_env empty_world] h1 h2 h3 by simp
qed

text \<open>
  C10. When the price API answers 200 with an object that has no \<open>prices\<close> field, or
  whose \<open>prices\<close> is \<open>null\<close>, the \<open>try\<close> block of the price fetcher returns the empty
  sequence (it raises nothing), and so does the fetcher, in both endpoints.
\<close>

theorem missing_prices_gives_empty_series:
  assumes "upstream env (price_url coinId) = Reply 200 (Parsed (JObj kvs))"
    and "map_of kvs ''prices'' = None \<or> map_of kvs ''prices'' = Some JNull"
  shows "refresher_fetchPriceData_try env (upstream env (price_url coinId)) = Inr [] \<and>
         reader_fetchPriceData_try env (upstream env (price_url coinId)) = Inr [] \<and>
         fst (refresher_fetchPriceData env coinId w) = [] \<and>
         fst (reader_fetchPriceData env coinId w) = []"
proof -
  from assms(2) have "js_or (map_of kvs ''prices'') (JArr []) = JArr []"
    by auto
  then have "refresher_fetchPriceData_try env (upstream env (price_url coinId)) = Inr []"
    by (simp add: assms(1) refresher_fetchPriceData_try_def)
  then show ?thesis
    by (simp add: reader_fetchPriceData_try_eq reader_fetchPriceData_eq
          refresher_fetchPriceData_fst)
qed

text \<open>The statement of C10 at a sample input.\<close>

theorem missing_prices_gives_empty_series_witness:
  "upstream sample_env (price_url ''flow'') = Reply 200 (Parsed (JObj [(''status'', JStr ''ok'')])) \<and>
   map_of [(''status'', JStr ''ok'')] ''prices'' = None \<and>
   upstream sample_env (price_url ''optimism'') = Reply 200 (Parsed (JObj [(''prices'', JNull)])) \<and>
   map_of [(''prices'', JNull)] ''prices'' = Some JNull \<and>
   refresher_fetchPriceData_try sample_env (upstream sample_env (price_url ''flow'')) = Inr [] \<and>
   fst (refresher_fetchPriceData sample_env ''flow'' empty_world) = [] \<and>
   fst (reader_fetchPriceData sample_env ''flow'' empty_world) = [] \<and>
   reader_fetchPriceData_try sample_env (upstream sample_env (price_url ''optimism'')) = Inr [] \<and>
   fst (refresher_fetchPriceData sample_env ''optimism'' empty_world) = [] \<and>
   fst (reader_fetchPriceData sample_env ''optimism'' empty_world) = []"
proof -
  have h1: "map_of [(''status'', JStr ''ok'')] ''prices'' = None \<or>
            map_of [(''status'', JStr ''ok'')] ''prices'' = Some JNull"
    by simp
  have h2: "map_of [(''prices'', JNull)] ''prices'' = None \<or>
            map_of [(''prices'', JNull)] ''prices'' = Some JNull"
    by simp
  show ?thesis
    using missing_prices_gives_empty_series [OF sample_env_price_flow h1, of empty_world]
      missing_prices_gives_empty_series [OF sample_env_price_optimism h2, of empty_world]
      sample_env_price_flow sample_env_price_optimism
    by simp
qed

end
